theory Spec2Isabelle
  imports Main
begin

section \<open>PomodoroPal: the background timer controller (background.js)\<close>

text \<open>
  The service worker keeps one global \<open>timerState\<close> object, mirrors it into
  \<open>chrome.storage.local\<close>, drives the countdown with the \<open>pomodoroTimer\<close> alarm, posts
  session records to the backend, raises notifications and maintains the dynamic redirect
  rules of \<open>chrome.declarativeNetRequest\<close>. The model threads one \<open>world\<close> record through
  every handler: the global object together with each external collaborator the handlers
  write to. \<open>Date.now()\<close> is the argument \<open>now\<close> (epoch milliseconds) of a handler.

  The file declares \<open>startTimer\<close>, \<open>pauseTimer\<close> and \<open>completeTimer\<close> twice; a later
  function declaration replaces an earlier one, so the definitions below follow the
  second declarations (lines 371, 387 and 404). \<open>resetTimer\<close>, \<open>switchMode\<close> and
  \<open>resumeTimer\<close> are declared once.
\<close>

subsection \<open>Numbers\<close>

text \<open>
  \<open>timeRemaining\<close> is a JavaScript Number. Every value the handlers compute is an integer
  or, after arithmetic on \<open>undefined\<close>, NaN. Epoch milliseconds are integers far below
  \<open>2 ^ 53\<close>, where \<open>Math.floor(x / 1000)\<close> is the floor division of the integers.
\<close>

datatype jsnum = Num int | NaN

text \<open>\<open>TIMER_CONFIG[m] * 60\<close>: a lookup without a numeric result multiplies to NaN.\<close>

fun js_times60 :: "int option \<Rightarrow> jsnum" where
  "js_times60 (Some n) = Num (n * 60)"
| "js_times60 None = NaN"

text \<open>\<open>x - e\<close> for an integer \<open>e\<close>.\<close>

fun js_minus :: "jsnum \<Rightarrow> int \<Rightarrow> jsnum" where
  "js_minus (Num n) e = Num (n - e)"
| "js_minus NaN e = NaN"

text \<open>\<open>Math.max(0, x)\<close>: NaN when an argument is NaN.\<close>

fun js_max0 :: "jsnum \<Rightarrow> jsnum" where
  "js_max0 (Num n) = Num (max 0 n)"
| "js_max0 NaN = NaN"

text \<open>\<open>x > 0\<close> and \<open>x <= 0\<close>: every comparison with NaN is false.\<close>

fun js_gt0 :: "jsnum \<Rightarrow> bool" where
  "js_gt0 (Num n) = (0 < n)"
| "js_gt0 NaN = False"

fun js_le0 :: "jsnum \<Rightarrow> bool" where
  "js_le0 (Num n) = (n \<le> 0)"
| "js_le0 NaN = False"

text \<open>\<open>Math.ceil(x / 60)\<close>.\<close>

fun js_ceil60 :: "jsnum \<Rightarrow> jsnum" where
  "js_ceil60 (Num n) = Num (- ((- n) div 60))"
| "js_ceil60 NaN = NaN"

subsection \<open>Configuration and data\<close>

text \<open>
  \<open>TIMER_CONFIG\<close> (minutes). \<open>None\<close> is a lookup that yields no number: \<open>undefined\<close>
  for an absent key (or a member inherited from \<open>Object.prototype\<close>, which multiplies to
  NaN just the same).
\<close>

definition TIMER_CONFIG :: "string \<Rightarrow> int option" where
  "TIMER_CONFIG m =
     (if m = ''pomodoro'' then Some 25
      else if m = ''shortBreak'' then Some 5
      else if m = ''longBreak'' then Some 15
      else None)"

record timerState =
  mode :: string
  timeRemaining :: jsnum
  isRunning :: bool
  startedAt :: "int option"
  pausedAt :: "int option"

text \<open>The initial value of the global \<open>timerState\<close> (line 49).\<close>

definition defaultTimerState :: timerState where
  "defaultTimerState =
     \<lparr>mode = ''pomodoro'', timeRemaining = js_times60 (TIMER_CONFIG ''pomodoro''),
      isRunning = False, startedAt = None, pausedAt = None\<rparr>"

text \<open>
  The body of the POST to \<open>/sessions\<close>. \<open>started_at\<close> and \<open>ended_at\<close> are the epoch
  milliseconds of the dates whose ISO string is sent; \<open>new Date(null)\<close> is the epoch.
\<close>

record sessionData =
  session_type :: string
  duration_minutes :: "int option"
  completed :: bool
  started_at :: int
  ended_at :: int

text \<open>A dynamic rule of \<open>declarativeNetRequest\<close>, as \<open>enableBlocking\<close> builds it.\<close>

record rule =
  rule_id :: nat
  priority :: nat
  action_type :: string
  extensionPath :: string
  urlFilter :: string
  resourceTypes :: "string list"

text \<open>
  The blocking keys of \<open>chrome.storage.local\<close>, written by the settings page;
  \<open>None\<close> is a key that was never stored.
\<close>

record config =
  blockingEnabled :: "bool option"
  blockDuringWork :: "bool option"
  blockedSites :: "string list option"

text \<open>
  The \<open>message\<close> handed to \<open>chrome.notifications.create\<close>: a string, or the member of
  \<open>Object.prototype\<close> that a lookup in an object literal finds under an inherited key
  (a function or object, never a string).
\<close>

datatype jsvalue = Str string | Inherited string

record world =
  timerState :: timerState
  storedState :: "timerState option"
  settings :: config
  alarm :: bool
  dynamicRules :: "rule list"
  sessions :: "sessionData list"
  notifications :: "jsvalue list"
  badge :: "jsnum option"

text \<open>
  \<open>storedState\<close> is the \<open>timerState\<close> key of \<open>chrome.storage.local\<close>; \<open>alarm\<close> says
  whether the \<open>pomodoroTimer\<close> alarm exists; \<open>sessions\<close> are the records handed to
  \<open>saveSessionToBackend\<close>, oldest first; \<open>notifications\<close> are the messages of the
  notifications created; \<open>badge\<close> is the badge text (\<open>None\<close> the empty text, otherwise
  the number whose string is shown).
\<close>

definition initialWorld :: world where
  "initialWorld =
     \<lparr>timerState = defaultTimerState, storedState = None,
      settings = \<lparr>blockingEnabled = None, blockDuringWork = None, blockedSites = None\<rparr>,
      alarm = False, dynamicRules = [], sessions = [], notifications = [], badge = None\<rparr>"

subsection \<open>Persistence\<close>

definition saveState :: "world \<Rightarrow> world" where
  "saveState w = w\<lparr>storedState := Some (timerState w)\<rparr>"

subsection \<open>Site blocking\<close>

definition defaultBlockedSites :: "string list" where
  "defaultBlockedSites =
     [''facebook.com'', ''x.com'', ''instagram.com'', ''youtube.com'', ''reddit.com'',
      ''tiktok.com'']"

definition subdomainRule :: "nat \<Rightarrow> string \<Rightarrow> rule" where
  "subdomainRule index site =
     \<lparr>rule_id = index + 1, priority = 1, action_type = ''redirect'',
      extensionPath = ''/blocked/blocked.html'',
      urlFilter = ''*://*.'' @ site @ ''/*'', resourceTypes = [''main_frame'']\<rparr>"

definition bareRule :: "nat \<Rightarrow> nat \<Rightarrow> string \<Rightarrow> rule" where
  "bareRule len index site =
     \<lparr>rule_id = len + index + 1, priority = 1, action_type = ''redirect'',
      extensionPath = ''/blocked/blocked.html'',
      urlFilter = ''*://'' @ site @ ''/*'', resourceTypes = [''main_frame'']\<rparr>"

text \<open>\<open>allRules\<close> of \<open>enableBlocking\<close>: \<open>sites.map((site, index) => ...)\<close> twice.\<close>

definition allRules :: "string list \<Rightarrow> rule list" where
  "allRules sites =
     map (\<lambda>(index, site). subdomainRule index site) (enumerate 0 sites) @
     map (\<lambda>(index, site). bareRule (length sites) index site) (enumerate 0 sites)"

text \<open>
  \<open>enableBlocking\<close> removes every existing dynamic rule and adds \<open>allRules\<close>;
  \<open>disableBlocking\<close> removes every existing rule when there is one.
\<close>

definition enableBlocking :: "string list \<Rightarrow> world \<Rightarrow> world" where
  "enableBlocking sites w = w\<lparr>dynamicRules := allRules sites\<rparr>"

definition disableBlocking :: "world \<Rightarrow> world" where
  "disableBlocking w = (if dynamicRules w \<noteq> [] then w\<lparr>dynamicRules := []\<rparr> else w)"

text \<open>The three settings as \<open>updateBlockingRules\<close> reads them, defaults applied.\<close>

definition blockingEnabledOf :: "config \<Rightarrow> bool" where
  "blockingEnabledOf c = (case blockingEnabled c of None \<Rightarrow> True | Some b \<Rightarrow> b)"

definition blockDuringWorkOf :: "config \<Rightarrow> bool" where
  "blockDuringWorkOf c = (case blockDuringWork c of None \<Rightarrow> True | Some b \<Rightarrow> b)"

definition blockedSitesOf :: "config \<Rightarrow> string list" where
  "blockedSitesOf c = (case blockedSites c of None \<Rightarrow> defaultBlockedSites | Some s \<Rightarrow> s)"

definition shouldBlock :: "config \<Rightarrow> timerState \<Rightarrow> bool" where
  "shouldBlock c ts =
     (blockingEnabledOf c \<and> isRunning ts \<and> (\<not> blockDuringWorkOf c \<or> mode ts = ''pomodoro''))"

text \<open>
  \<open>updateBlockingRules\<close> reads the settings in a storage callback. Each caller invokes
  it after its last change to \<open>timerState\<close>, so the callback sees the state the caller
  leaves behind; the model runs it in place.
\<close>

definition updateBlockingRules :: "world \<Rightarrow> world" where
  "updateBlockingRules w =
     (if shouldBlock (settings w) (timerState w)
      then enableBlocking (blockedSitesOf (settings w)) w
      else disableBlocking w)"

subsection \<open>Timer commands\<close>

text \<open>
  \<open>timerState.startedAt\<close> used as a condition: \<open>null\<close> and \<open>0\<close> are falsy. Used as a
  number (\<open>Date.now() - startedAt\<close>) or as the argument of \<open>new Date\<close>, \<open>null\<close> is 0.
\<close>

definition truthy :: "int option \<Rightarrow> bool" where
  "truthy t = (case t of None \<Rightarrow> False | Some n \<Rightarrow> n \<noteq> 0)"

definition msOf :: "int option \<Rightarrow> int" where
  "msOf t = (case t of None \<Rightarrow> 0 | Some n \<Rightarrow> n)"

definition startTimer :: "int \<Rightarrow> world \<Rightarrow> world" where
  "startTimer now w =
     (if isRunning (timerState w) then w
      else saveState (updateBlockingRules
             (w\<lparr>timerState := (timerState w)\<lparr>isRunning := True, startedAt := Some now\<rparr>,
                alarm := True\<rparr>)))"

definition pauseTimer :: "int \<Rightarrow> world \<Rightarrow> world" where
  "pauseTimer now w =
     (if \<not> isRunning (timerState w) then w
      else saveState (updateBlockingRules
             (w\<lparr>timerState := (timerState w)\<lparr>isRunning := False, pausedAt := Some now\<rparr>,
                alarm := False\<rparr>)))"

definition resetTimer :: "int \<Rightarrow> world \<Rightarrow> world" where
  "resetTimer now w =
     (let ts = timerState w;
          w1 = (if isRunning ts \<and> truthy (startedAt ts)
                then w\<lparr>sessions := sessions w @
                       [\<lparr>session_type = mode ts, duration_minutes = TIMER_CONFIG (mode ts),
                         completed = False, started_at = msOf (startedAt ts),
                         ended_at = now\<rparr>]\<rparr>
                else w)
      in saveState
           (w1\<lparr>timerState :=
                  ts\<lparr>isRunning := False,
                     timeRemaining := js_times60 (TIMER_CONFIG (mode ts)),
                     startedAt := None, pausedAt := None\<rparr>,
                alarm := False\<rparr>))"

definition switchMode :: "string \<Rightarrow> world \<Rightarrow> world" where
  "switchMode newMode w =
     (if isRunning (timerState w) then w
      else saveState
             (w\<lparr>timerState :=
                    (timerState w)\<lparr>mode := newMode,
                                    timeRemaining := js_times60 (TIMER_CONFIG newMode),
                                    startedAt := None, pausedAt := None\<rparr>\<rparr>))"

text \<open>
  \<open>messages[timerState.mode] || 'Timer completed!'\<close> of \<open>completeTimer\<close>. \<open>messages\<close> is
  an object literal, so a key it does not define is still found when \<open>Object.prototype\<close>
  has it; the member found is truthy and the fallback is not taken.
\<close>

definition objectPrototypeKeys :: "string list" where
  "objectPrototypeKeys =
     [''constructor'', ''hasOwnProperty'', ''isPrototypeOf'', ''propertyIsEnumerable'',
      ''toLocaleString'', ''toString'', ''valueOf'', ''__proto__'', ''__defineGetter__'',
      ''__defineSetter__'', ''__lookupGetter__'', ''__lookupSetter__'']"

definition completionMessage :: "string \<Rightarrow> jsvalue" where
  "completionMessage m =
     (if m = ''pomodoro'' then Str ''Work session completed! You deserve a break.''
      else if m = ''shortBreak'' then Str ''Break finished! Ready to focus again?''
      else if m = ''longBreak'' then Str ''Long break finished! Ready for another session?''
      else if m \<in> set objectPrototypeKeys then Inherited m
      else Str ''Timer completed!'')"

definition nextMode :: "string \<Rightarrow> string" where
  "nextMode m = (if m = ''pomodoro'' then ''shortBreak'' else ''pomodoro'')"

definition completeTimer :: "int \<Rightarrow> world \<Rightarrow> world" where
  "completeTimer now w =
     (let ts = timerState w;
          w1 = w\<lparr>sessions := sessions w @
                  [\<lparr>session_type = mode ts, duration_minutes = TIMER_CONFIG (mode ts),
                    completed = True, started_at = msOf (startedAt ts), ended_at = now\<rparr>]\<rparr>;
          w2 = w1\<lparr>timerState := ts\<lparr>isRunning := False, timeRemaining := Num 0\<rparr>,
                  alarm := False\<rparr>;
          w3 = w2\<lparr>notifications := notifications w2 @ [completionMessage (mode ts)],
                  badge := None\<rparr>
      in saveState (updateBlockingRules (switchMode (nextMode (mode ts)) w3)))"

subsection \<open>Reconciliation and the alarm tick\<close>

text \<open>Lines 167 to 169 of \<open>resumeTimer\<close>: the elapsed seconds and the clamped remainder.\<close>

definition elapsed :: "int \<Rightarrow> timerState \<Rightarrow> int" where
  "elapsed now ts = (now - msOf (startedAt ts)) div 1000"

definition reconciled :: "int \<Rightarrow> timerState \<Rightarrow> jsnum" where
  "reconciled now ts =
     js_max0 (js_minus (js_times60 (TIMER_CONFIG (mode ts))) (elapsed now ts))"

definition resumeTimer :: "int \<Rightarrow> world \<Rightarrow> world" where
  "resumeTimer now w =
     (if \<not> isRunning (timerState w) then w
      else let w1 = w\<lparr>timerState :=
                         (timerState w)\<lparr>timeRemaining := reconciled now (timerState w)\<rparr>\<rparr>
           in if js_gt0 (timeRemaining (timerState w1)) then w1\<lparr>alarm := True\<rparr>
              else completeTimer now w1)"

text \<open>
  The first \<open>onInstalled\<close> listener (line 58). Storage only ever holds a whole
  \<open>timerState\<close> object (the one \<open>saveState\<close> wrote), so the spread
  \<open>{...timerState, ...result.timerState}\<close> is the stored object.
\<close>

definition onInstalledTimer :: "int \<Rightarrow> world \<Rightarrow> world" where
  "onInstalledTimer now w =
     (case storedState w of
        None \<Rightarrow> w
      | Some s \<Rightarrow>
          (let w1 = w\<lparr>timerState := s\<rparr>
           in if isRunning s \<and> truthy (startedAt s) then resumeTimer now w1 else w1))"

text \<open>The second \<open>onInstalled\<close> listener (line 271) removes every dynamic rule.\<close>

definition onInstalledBlocking :: "world \<Rightarrow> world" where
  "onInstalledBlocking w = (if dynamicRules w \<noteq> [] then w\<lparr>dynamicRules := []\<rparr> else w)"

definition onInstalled :: "int \<Rightarrow> world \<Rightarrow> world" where
  "onInstalled now w = onInstalledBlocking (onInstalledTimer now w)"

text \<open>The \<open>onAlarm\<close> listener (line 179).\<close>

definition onAlarm :: "string \<Rightarrow> int \<Rightarrow> world \<Rightarrow> world" where
  "onAlarm name now w =
     (if name = ''pomodoroTimer'' \<and> isRunning (timerState w)
      then let w1 = w\<lparr>timerState :=
                         (timerState w)\<lparr>timeRemaining :=
                                          js_minus (timeRemaining (timerState w)) 1\<rparr>\<rparr>
           in saveState
                (if js_le0 (timeRemaining (timerState w1)) then completeTimer now w1
                 else w1\<lparr>badge := Some (js_ceil60 (timeRemaining (timerState w1)))\<rparr>)
      else w)"

text \<open>The \<open>storage.onChanged\<close> listener (line 455), for a change of a blocking key.\<close>

definition onSettingsChanged :: "config \<Rightarrow> world \<Rightarrow> world" where
  "onSettingsChanged c w = updateBlockingRules (w\<lparr>settings := c\<rparr>)"

subsection \<open>Messages\<close>

text \<open>
  A message of the popup: its \<open>action\<close> and its \<open>mode\<close> field, a string (the popup sends
  the \<open>data-mode\<close> attribute of the button pressed). The response is the \<open>timerState\<close>
  object or \<open>{error: ...}\<close>.
\<close>

record request =
  action :: string
  req_mode :: string

datatype response = State timerState | Error string

definition onMessage :: "request \<Rightarrow> int \<Rightarrow> world \<Rightarrow> response \<times> world" where
  "onMessage request now w =
     (if action request = ''GET_STATE'' then (State (timerState w), w)
      else if action request = ''START_TIMER''
        then (let w' = startTimer now w in (State (timerState w'), w'))
      else if action request = ''PAUSE_TIMER''
        then (let w' = pauseTimer now w in (State (timerState w'), w'))
      else if action request = ''RESET_TIMER''
        then (let w' = resetTimer now w in (State (timerState w'), w'))
      else if action request = ''SWITCH_MODE''
        then (let w' = switchMode (req_mode request) w in (State (timerState w'), w'))
      else (Error ''Unknown action'', w))"

subsection \<open>Runs\<close>

text \<open>
  An event is a message, a firing alarm or an \<open>onInstalled\<close> dispatch, each at its
  reading of the clock; the handlers run one at a time.
\<close>

datatype event = Message request | AlarmFired string | Installed

fun handle :: "int \<times> event \<Rightarrow> world \<Rightarrow> world" where
  "handle (now, Message r) w = snd (onMessage r now w)"
| "handle (now, AlarmFired name) w = onAlarm name now w"
| "handle (now, Installed) w = onInstalled now w"

fun run :: "(int \<times> event) list \<Rightarrow> world \<Rightarrow> world" where
  "run [] w = w"
| "run (e # es) w = run es (handle e w)"

subsection \<open>Sample worlds\<close>

text \<open>
  A fresh installation after START_TIMER at clock reading 1000, and the same after
  a switch to the short break first.
\<close>

definition runningWork :: world where
  "runningWork = startTimer 1000 initialWorld"

definition runningShortBreak :: world where
  "runningShortBreak = startTimer 1000 (switchMode ''shortBreak'' initialWorld)"

text \<open>
  Settings the settings page can store: a custom site list with blocking during breaks too,
  blocking restricted to work sessions, and blocking switched off.
\<close>

definition customSettings :: config where
  "customSettings =
     \<lparr>blockingEnabled = Some True, blockDuringWork = Some False,
      blockedSites = Some [''news.example.com'', ''chat.example.org'']\<rparr>"

definition workOnlySettings :: config where
  "workOnlySettings =
     \<lparr>blockingEnabled = Some True, blockDuringWork = Some True, blockedSites = None\<rparr>"

definition disabledSettings :: config where
  "disabledSettings =
     \<lparr>blockingEnabled = Some False, blockDuringWork = None, blockedSites = None\<rparr>"

subsection \<open>Recognised inputs\<close>

text \<open>The five actions the message listener has a case for.\<close>

definition knownAction :: "string \<Rightarrow> bool" where
  "knownAction a =
     (a = ''GET_STATE'' \<or> a = ''START_TIMER'' \<or> a = ''PAUSE_TIMER'' \<or> a = ''RESET_TIMER'' \<or>
      a = ''SWITCH_MODE'')"

subsection \<open>Ticks of a run\<close>

text \<open>
  The alarm firing at a clock reading, and the readings one second apart that follow the
  start of \<open>runningWork\<close>.
\<close>

definition tick :: "int \<Rightarrow> int \<times> event" where
  "tick now = (now, AlarmFired ''pomodoroTimer'')"


definition secondsAfterStart :: "nat \<Rightarrow> int list" where
  "secondsAfterStart n = map (\<lambda>i. 1000 + 1000 * int i) [1..<Suc n]"

subsection \<open>Rule sets that reflect the state\<close>

text \<open>
  The dynamic rules are current when recomputing them from the present \<open>timerState\<close>
  and settings would not change them.
\<close>

definition rulesCurrent :: "world \<Rightarrow> bool" where
  "rulesCurrent w = (dynamicRules w = dynamicRules (updateBlockingRules w))"

subsection \<open>The range of the remaining time\<close>

text \<open>
  \<open>inRange\<close>: the remaining time is an integer between 0 and the configured duration of
  the mode, in seconds. \<open>modeArgOk\<close>: a SWITCH_MODE message names a configured mode.
  \<open>wellTimed\<close> adds that a start timestamp is not later than the clock reading \<open>T\<close>;
  \<open>timerInv\<close> asks it of the state in memory and of the stored one.
\<close>

definition inRange :: "timerState \<Rightarrow> bool" where
  "inRange ts =
     (case timeRemaining ts of
        NaN \<Rightarrow> False
      | Num n \<Rightarrow> (case TIMER_CONFIG (mode ts) of None \<Rightarrow> False | Some d \<Rightarrow> 0 \<le> n \<and> n \<le> d * 60))"


definition wellTimed :: "int \<Rightarrow> timerState \<Rightarrow> bool" where
  "wellTimed T ts = (inRange ts \<and> (case startedAt ts of None \<Rightarrow> True | Some t \<Rightarrow> t \<le> T))"

definition timerInv :: "int \<Rightarrow> world \<Rightarrow> bool" where
  "timerInv T w =
     (wellTimed T (timerState w) \<and>
      (case storedState w of None \<Rightarrow> True | Some s \<Rightarrow> wellTimed T s))"



section \<open>Properties\<close>

subsection \<open>The blocking rule set\<close>

lemma length_allRules: "length (allRules sites) = 2 * length sites"
  by (simp add: allRules_def)

lemma allRules_nth_sub:
  "i < length sites \<Longrightarrow> allRules sites ! i = subdomainRule i (sites ! i)"
  by (simp add: allRules_def nth_append nth_enumerate_eq)

lemma allRules_nth_bare:
  "i < length sites \<Longrightarrow> allRules sites ! (length sites + i) = bareRule (length sites) i (sites ! i)"
  by (simp add: allRules_def nth_append nth_enumerate_eq)

lemma allRules_redirect:
  "r \<in> set (allRules sites) \<Longrightarrow>
     action_type r = ''redirect'' \<and> extensionPath r = ''/blocked/blocked.html'' \<and>
     resourceTypes r = [''main_frame'']"
  by (auto simp: allRules_def subdomainRule_def bareRule_def)

lemma dynamicRules_update:
  "dynamicRules (updateBlockingRules w) =
     (if shouldBlock (settings w) (timerState w) then allRules (blockedSitesOf (settings w)) else [])"
  by (simp add: updateBlockingRules_def enableBlocking_def disableBlocking_def)

lemma runningWork_simps:
  "timerState runningWork =
     \<lparr>mode = ''pomodoro'', timeRemaining = Num 1500, isRunning = True,
      startedAt = Some 1000, pausedAt = None\<rparr>"
  "settings runningWork = \<lparr>blockingEnabled = None, blockDuringWork = None, blockedSites = None\<rparr>"
  "dynamicRules runningWork = allRules defaultBlockedSites"
  "sessions runningWork = []"
  by (simp_all add: runningWork_def startTimer_def initialWorld_def defaultTimerState_def
      TIMER_CONFIG_def saveState_def dynamicRules_update shouldBlock_def blockingEnabledOf_def
      blockDuringWorkOf_def blockedSitesOf_def updateBlockingRules_def enableBlocking_def)

lemma runningShortBreak_simps:
  "timerState runningShortBreak =
     \<lparr>mode = ''shortBreak'', timeRemaining = Num 300, isRunning = True,
      startedAt = Some 1000, pausedAt = None\<rparr>"
  "settings runningShortBreak = \<lparr>blockingEnabled = None, blockDuringWork = None, blockedSites = None\<rparr>"
  by (simp_all add: runningShortBreak_def startTimer_def switchMode_def initialWorld_def
      defaultTimerState_def TIMER_CONFIG_def saveState_def shouldBlock_def blockingEnabledOf_def
      blockDuringWorkOf_def blockedSitesOf_def updateBlockingRules_def disableBlocking_def)

text \<open>
  C2. The blocking decision of \<open>updateBlockingRules\<close>, read off the stored settings:
  it holds exactly when \<open>blockingEnabled\<close> (true when never stored) is true, the timer is
  running, and either \<open>blockDuringWork\<close> (true when never stored) is false or the mode is
  the work mode. When the decision is false the rule set left behind is empty; when it is
  true the rule set has two redirect rules per site of \<open>blockedSites\<close> (the six default
  sites when never stored), all sending main-frame requests to the blocked page: rule \<open>i\<close>
  matches any subdomain of site \<open>i\<close> and rule \<open>length sites + i\<close> the bare domain. The
  witness covers the default settings, blocking switched off, blocking restricted to work
  during a short break, and a custom site list with blocking during breaks.
\<close>

theorem blocking_decision_and_rules:
  "shouldBlock (settings w) (timerState w) =
     ((case blockingEnabled (settings w) of None \<Rightarrow> True | Some b \<Rightarrow> b) \<and>
      isRunning (timerState w) \<and>
      ((case blockDuringWork (settings w) of None \<Rightarrow> True | Some b \<Rightarrow> b) = False \<or>
       mode (timerState w) = ''pomodoro''))
   \<and> (\<not> shouldBlock (settings w) (timerState w) \<longrightarrow> dynamicRules (updateBlockingRules w) = [])
   \<and> (shouldBlock (settings w) (timerState w) \<longrightarrow>
        (let sites = (case blockedSites (settings w) of
                        None \<Rightarrow> [''facebook.com'', ''x.com'', ''instagram.com'', ''youtube.com'',
                                 ''reddit.com'', ''tiktok.com'']
                      | Some s \<Rightarrow> s);
             rules = dynamicRules (updateBlockingRules w)
         in length rules = 2 * length sites \<and>
            (\<forall>r \<in> set rules. action_type r = ''redirect'' \<and>
               extensionPath r = ''/blocked/blocked.html'' \<and> resourceTypes r = [''main_frame'']) \<and>
            (\<forall>i < length sites.
               urlFilter (rules ! i) = ''*://*.'' @ sites ! i @ ''/*'' \<and>
               urlFilter (rules ! (length sites + i)) = ''*://'' @ sites ! i @ ''/*'')))"
proof (intro conjI impI)
  show "shouldBlock (settings w) (timerState w) =
     ((case blockingEnabled (settings w) of None \<Rightarrow> True | Some b \<Rightarrow> b) \<and>
      isRunning (timerState w) \<and>
      ((case blockDuringWork (settings w) of None \<Rightarrow> True | Some b \<Rightarrow> b) = False \<or>
       mode (timerState w) = ''pomodoro''))"
    by (simp add: shouldBlock_def blockingEnabledOf_def blockDuringWorkOf_def)
next
  assume "\<not> shouldBlock (settings w) (timerState w)"
  then show "dynamicRules (updateBlockingRules w) = []"
    by (simp add: dynamicRules_update)
next
  let ?sites = "case blockedSites (settings w) of
                        None \<Rightarrow> [''facebook.com'', ''x.com'', ''instagram.com'', ''youtube.com'',
                                 ''reddit.com'', ''tiktok.com'']
                      | Some s \<Rightarrow> s"
  have sites: "blockedSitesOf (settings w) = ?sites"
    by (simp add: blockedSitesOf_def defaultBlockedSites_def split: option.splits)
  assume sb: "shouldBlock (settings w) (timerState w)"
  then have eq: "dynamicRules (updateBlockingRules w) = allRules ?sites"
    by (simp add: dynamicRules_update sites)
  have "length (allRules ?sites) = 2 * length ?sites \<and>
            (\<forall>r \<in> set (allRules ?sites). action_type r = ''redirect'' \<and>
               extensionPath r = ''/blocked/blocked.html'' \<and> resourceTypes r = [''main_frame'']) \<and>
            (\<forall>i < length ?sites.
               urlFilter (allRules ?sites ! i) = ''*://*.'' @ ?sites ! i @ ''/*'' \<and>
               urlFilter (allRules ?sites ! (length ?sites + i)) = ''*://'' @ ?sites ! i @ ''/*'')"
    using allRules_redirect [of _ ?sites]
    by (auto simp: length_allRules allRules_nth_sub allRules_nth_bare subdomainRule_def
        bareRule_def simp del: append.simps)
  then show "let sites = ?sites; rules = dynamicRules (updateBlockingRules w)
         in length rules = 2 * length sites \<and>
            (\<forall>r \<in> set rules. action_type r = ''redirect'' \<and>
               extensionPath r = ''/blocked/blocked.html'' \<and> resourceTypes r = [''main_frame'']) \<and>
            (\<forall>i < length sites.
               urlFilter (rules ! i) = ''*://*.'' @ sites ! i @ ''/*'' \<and>
               urlFilter (rules ! (length sites + i)) = ''*://'' @ sites ! i @ ''/*'')"
    unfolding Let_def eq .
qed


theorem blocking_decision_and_rules_witness:
  "shouldBlock (settings runningWork) (timerState runningWork) \<and>
   length (dynamicRules (updateBlockingRules runningWork)) = 12 \<and>
   urlFilter (dynamicRules (updateBlockingRules runningWork) ! 0) = ''*://*.facebook.com/*'' \<and>
   urlFilter (dynamicRules (updateBlockingRules runningWork) ! 6) = ''*://facebook.com/*'' \<and>
   \<not> shouldBlock (settings runningShortBreak) (timerState runningShortBreak) \<and>
   dynamicRules (updateBlockingRules runningShortBreak) = [] \<and>
   \<not> shouldBlock workOnlySettings (timerState runningShortBreak) \<and>
   dynamicRules (onSettingsChanged workOnlySettings runningShortBreak) = [] \<and>
   \<not> shouldBlock disabledSettings (timerState runningWork) \<and>
   dynamicRules (onSettingsChanged disabledSettings runningWork) = [] \<and>
   shouldBlock customSettings (timerState runningShortBreak) \<and>
   map urlFilter (dynamicRules (onSettingsChanged customSettings runningShortBreak)) =
     [''*://*.news.example.com/*'', ''*://*.chat.example.org/*'',
      ''*://news.example.com/*'', ''*://chat.example.org/*'']"
proof -
  let ?d = "runningWork\<lparr>settings := disabledSettings\<rparr>"
  let ?o = "runningShortBreak\<lparr>settings := workOnlySettings\<rparr>"
  let ?c = "runningShortBreak\<lparr>settings := customSettings\<rparr>"
  note rw = blocking_decision_and_rules [of runningWork]
  note rs = blocking_decision_and_rules [of runningShortBreak]
  note rd = blocking_decision_and_rules [of ?d]
  note ro = blocking_decision_and_rules [of ?o]
  note rc = blocking_decision_and_rules [of ?c]
  have a: "shouldBlock (settings runningWork) (timerState runningWork)"
    using rw by (simp add: runningWork_simps)
  have b: "\<not> shouldBlock (settings runningShortBreak) (timerState runningShortBreak)"
    using rs by (simp add: runningShortBreak_simps)
  have d: "\<not> shouldBlock (settings ?d) (timerState ?d)"
    using rd by (simp add: runningWork_simps disabledSettings_def)
  have o: "\<not> shouldBlock (settings ?o) (timerState ?o)"
    using ro by (simp add: runningShortBreak_simps workOnlySettings_def)
  have c: "shouldBlock (settings ?c) (timerState ?c)"
    using rc by (simp add: runningShortBreak_simps customSettings_def)
  let ?R = "dynamicRules (updateBlockingRules runningWork)"
  let ?D = "[''facebook.com'', ''x.com'', ''instagram.com'', ''youtube.com'', ''reddit.com'',
             ''tiktok.com'']"
  have eqD: "(case blockedSites (settings runningWork) of None \<Rightarrow> ?D | Some s \<Rightarrow> s) = ?D"
    by (simp add: runningWork_simps)
  from a rw
  have L: "let sites = (case blockedSites (settings runningWork) of None \<Rightarrow> ?D | Some s \<Rightarrow> s);
            rules = ?R
        in length rules = 2 * length sites \<and>
            (\<forall>r \<in> set rules. action_type r = ''redirect'' \<and>
               extensionPath r = ''/blocked/blocked.html'' \<and> resourceTypes r = [''main_frame'']) \<and>
            (\<forall>i < length sites.
               urlFilter (rules ! i) = ''*://*.'' @ sites ! i @ ''/*'' \<and>
               urlFilter (rules ! (length sites + i)) = ''*://'' @ sites ! i @ ''/*'')"
    by blast
  note body = L [unfolded Let_def eqD]
  from body have len: "length ?R = 12"
    by simp
  from body [THEN conjunct2, THEN conjunct2, rule_format, of 0]
  have f: "urlFilter (?R ! 0) = ''*://*.facebook.com/*''"
      "urlFilter (?R ! 6) = ''*://facebook.com/*''"
    by (simp_all add: eval_nat_numeral)
  from b rs have e: "dynamicRules (updateBlockingRules runningShortBreak) = []"
    by blast
  from d rd have ed: "dynamicRules (updateBlockingRules ?d) = []"
    by blast
  from o ro have eo: "dynamicRules (updateBlockingRules ?o) = []"
    by blast
  let ?C = "dynamicRules (updateBlockingRules ?c)"
  let ?S = "[''news.example.com'', ''chat.example.org'']"
  have eqS: "(case blockedSites (settings ?c) of None \<Rightarrow> ?D | Some s \<Rightarrow> s) = ?S"
    by (simp add: customSettings_def)
  from c rc
  have Lc: "let sites = (case blockedSites (settings ?c) of None \<Rightarrow> ?D | Some s \<Rightarrow> s);
            rules = ?C
        in length rules = 2 * length sites \<and>
            (\<forall>r \<in> set rules. action_type r = ''redirect'' \<and>
               extensionPath r = ''/blocked/blocked.html'' \<and> resourceTypes r = [''main_frame'']) \<and>
            (\<forall>i < length sites.
               urlFilter (rules ! i) = ''*://*.'' @ sites ! i @ ''/*'' \<and>
               urlFilter (rules ! (length sites + i)) = ''*://'' @ sites ! i @ ''/*'')"
    by blast
  note bodyc = Lc [unfolded Let_def eqS]
  from bodyc have lc: "length ?C = 4"
    by simp
  from bodyc [THEN conjunct2, THEN conjunct2, rule_format, of 0]
    bodyc [THEN conjunct2, THEN conjunct2, rule_format, of 1]
  have fc: "urlFilter (?C ! 0) = ''*://*.news.example.com/*''"
      "urlFilter (?C ! 1) = ''*://*.chat.example.org/*''"
      "urlFilter (?C ! 2) = ''*://news.example.com/*''"
      "urlFilter (?C ! 3) = ''*://chat.example.org/*''"
    by (simp_all add: eval_nat_numeral)
  have mc: "map urlFilter ?C =
     [''*://*.news.example.com/*'', ''*://*.chat.example.org/*'',
      ''*://news.example.com/*'', ''*://chat.example.org/*'']"
    by (rule nth_equalityI) (use lc fc in \<open>auto simp: less_Suc_eq numeral_eq_Suc\<close>)
  from a b c d o len f e ed eo mc show ?thesis
    by (simp add: onSettingsChanged_def)
qed

subsection \<open>Frame lemmas\<close>

lemma isRunning_startTimer: "isRunning (timerState (startTimer now w))"
  by (simp add: startTimer_def saveState_def updateBlockingRules_def enableBlocking_def
      disableBlocking_def)

lemma timerState_updateBlockingRules [simp]:
  "timerState (updateBlockingRules w) = timerState w"
  by (simp add: updateBlockingRules_def enableBlocking_def disableBlocking_def)

lemma timerState_saveState [simp]: "timerState (saveState w) = timerState w"
  by (simp add: saveState_def)

subsection \<open>Messages: guards and the unknown action\<close>

text \<open>
  C8. START_TIMER while running, PAUSE_TIMER while not running and SWITCH_MODE while
  running answer with the current \<open>timerState\<close> and leave the whole world as it was. A
  message is answered with an error exactly when its action is none of the five known
  ones; the answer is then \<open>{error: 'Unknown action'}\<close> and nothing changes. After one
  START_TIMER a second START_TIMER changes nothing.
\<close>

theorem illegal_transitions_are_noops:
  "(isRunning (timerState w) \<longrightarrow>
      onMessage \<lparr>action = ''START_TIMER'', req_mode = m\<rparr> now w = (State (timerState w), w))
   \<and> (\<not> isRunning (timerState w) \<longrightarrow>
      onMessage \<lparr>action = ''PAUSE_TIMER'', req_mode = m\<rparr> now w = (State (timerState w), w))
   \<and> (isRunning (timerState w) \<longrightarrow>
      onMessage \<lparr>action = ''SWITCH_MODE'', req_mode = m\<rparr> now w = (State (timerState w), w))
   \<and> ((\<exists>e. fst (onMessage r now w) = Error e) = (\<not> knownAction (action r)))
   \<and> (\<not> knownAction (action r) \<longrightarrow> onMessage r now w = (Error ''Unknown action'', w))
   \<and> (let w1 = snd (onMessage \<lparr>action = ''START_TIMER'', req_mode = m\<rparr> now w)
       in onMessage \<lparr>action = ''START_TIMER'', req_mode = m\<rparr> now' w1
            = (State (timerState w1), w1))"
proof (intro conjI impI)
  show "(\<exists>e. fst (onMessage r now w) = Error e) = (\<not> knownAction (action r))"
    by (simp add: onMessage_def knownAction_def Let_def)
next
  assume "\<not> knownAction (action r)"
  then show "onMessage r now w = (Error ''Unknown action'', w)"
    by (simp add: onMessage_def knownAction_def)
next
  show "let w1 = snd (onMessage \<lparr>action = ''START_TIMER'', req_mode = m\<rparr> now w)
       in onMessage \<lparr>action = ''START_TIMER'', req_mode = m\<rparr> now' w1
            = (State (timerState w1), w1)"
    using isRunning_startTimer [of now w]
    by (simp add: onMessage_def Let_def startTimer_def [of now'])
qed (simp_all add: onMessage_def startTimer_def pauseTimer_def switchMode_def)

theorem illegal_transitions_are_noops_witness:
  "isRunning (timerState runningWork) \<and>
   onMessage \<lparr>action = ''START_TIMER'', req_mode = []\<rparr> 2000 runningWork
     = (State (timerState runningWork), runningWork) \<and>
   onMessage \<lparr>action = ''SWITCH_MODE'', req_mode = ''shortBreak''\<rparr> 2000 runningWork
     = (State (timerState runningWork), runningWork) \<and>
   mode (timerState runningWork) = ''pomodoro'' \<and>
   \<not> isRunning (timerState initialWorld) \<and>
   onMessage \<lparr>action = ''PAUSE_TIMER'', req_mode = []\<rparr> 2000 initialWorld
     = (State (timerState initialWorld), initialWorld) \<and>
   \<not> knownAction ''STOP'' \<and>
   onMessage \<lparr>action = ''STOP'', req_mode = []\<rparr> 2000 runningWork
     = (Error ''Unknown action'', runningWork)"
proof -
  have a: "isRunning (timerState runningWork)" "mode (timerState runningWork) = ''pomodoro''"
    by (simp_all add: runningWork_simps)
  have b: "\<not> isRunning (timerState initialWorld)"
    by (simp add: initialWorld_def defaultTimerState_def)
  have c: "\<not> knownAction (action \<lparr>action = ''STOP'', req_mode = []\<rparr>)"
    by (simp add: knownAction_def)
  from a illegal_transitions_are_noops [of runningWork "[]" 2000]
  have 1: "onMessage \<lparr>action = ''START_TIMER'', req_mode = []\<rparr> 2000 runningWork
     = (State (timerState runningWork), runningWork)" by blast
  from a illegal_transitions_are_noops [of runningWork "''shortBreak''" 2000]
  have 2: "onMessage \<lparr>action = ''SWITCH_MODE'', req_mode = ''shortBreak''\<rparr> 2000 runningWork
     = (State (timerState runningWork), runningWork)" by blast
  from b illegal_transitions_are_noops [of initialWorld "[]" 2000]
  have 3: "onMessage \<lparr>action = ''PAUSE_TIMER'', req_mode = []\<rparr> 2000 initialWorld
     = (State (timerState initialWorld), initialWorld)" by blast
  from c illegal_transitions_are_noops [of runningWork "[]" 2000 "\<lparr>action = ''STOP'', req_mode = []\<rparr>"]
  have 4: "onMessage \<lparr>action = ''STOP'', req_mode = []\<rparr> 2000 runningWork
     = (Error ''Unknown action'', runningWork)" by blast
  from a b c 1 2 3 4 show ?thesis by simp
qed

text \<open>
  C10. \<open>switchMode\<close> does not validate its argument. On a timer that is not running, a
  mode string other than the three configured ones becomes the mode, and
  \<open>timeRemaining\<close> becomes NaN, which is no integer at all; the message is answered with
  that state, not with an error, and the state is persisted.
\<close>

theorem switchMode_unknown_mode:
  assumes "\<not> isRunning (timerState w)"
    and "m \<noteq> ''pomodoro''" and "m \<noteq> ''shortBreak''" and "m \<noteq> ''longBreak''"
  shows "fst (onMessage \<lparr>action = ''SWITCH_MODE'', req_mode = m\<rparr> now w)
           = State ((timerState w)\<lparr>mode := m, timeRemaining := NaN, startedAt := None,
                                   pausedAt := None\<rparr>)
         \<and> mode (timerState (switchMode m w)) = m
         \<and> timeRemaining (timerState (switchMode m w)) = NaN
         \<and> (\<forall>n. timeRemaining (timerState (switchMode m w)) \<noteq> Num n)
         \<and> storedState (switchMode m w) = Some (timerState (switchMode m w))"
  using assms
  by (simp add: onMessage_def switchMode_def TIMER_CONFIG_def saveState_def)

theorem switchMode_unknown_mode_witness:
  "\<not> isRunning (timerState initialWorld) \<and>
   mode (timerState (switchMode ''nap'' initialWorld)) = ''nap'' \<and>
   timeRemaining (timerState (switchMode ''nap'' initialWorld)) = NaN"
proof -
  have b: "\<not> isRunning (timerState initialWorld)"
    by (simp add: initialWorld_def defaultTimerState_def)
  from switchMode_unknown_mode [OF b, of "''nap''"] b show ?thesis by simp
qed

subsection \<open>Counting down\<close>

lemma runningWork_isRunning: "isRunning (timerState runningWork)"
  by (simp add: runningWork_simps)

lemma tick_running:
  assumes "isRunning (timerState w)" "timeRemaining (timerState w) = Num k" "1 < k"
  shows "timerState (handle (tick now) w) = (timerState w)\<lparr>timeRemaining := Num (k - 1)\<rparr>"
    and "sessions (handle (tick now) w) = sessions w"
    and "notifications (handle (tick now) w) = notifications w"
    and "settings (handle (tick now) w) = settings w"
    and "dynamicRules (handle (tick now) w) = dynamicRules w"
    and "alarm (handle (tick now) w) = alarm w"
  using assms by (simp_all add: tick_def onAlarm_def Let_def saveState_def)

lemma run_ticks:
  "isRunning (timerState w) \<Longrightarrow> timeRemaining (timerState w) = Num k \<Longrightarrow>
   int (length nows) < k \<Longrightarrow>
   timerState (run (map tick nows) w) = (timerState w)\<lparr>timeRemaining := Num (k - int (length nows))\<rparr>
   \<and> sessions (run (map tick nows) w) = sessions w
   \<and> notifications (run (map tick nows) w) = notifications w
   \<and> settings (run (map tick nows) w) = settings w
   \<and> dynamicRules (run (map tick nows) w) = dynamicRules w
   \<and> alarm (run (map tick nows) w) = alarm w"
proof (induction nows arbitrary: w k)
  case Nil
  then show ?case by simp
next
  case (Cons a nows)
  from Cons.prems have k: "1 < k" by simp
  note t = tick_running [OF Cons.prems(1,2) k, of a]
  have r: "isRunning (timerState (handle (tick a) w))"
    "timeRemaining (timerState (handle (tick a) w)) = Num (k - 1)"
    using Cons.prems(1) by (simp_all add: t)
  from Cons.prems have l: "int (length nows) < k - 1" by simp
  from Cons.IH [OF r l] show ?case
    by (simp add: t)
qed

lemma TIMER_CONFIG_simps:
  "TIMER_CONFIG ''pomodoro'' = Some 25"
  "TIMER_CONFIG ''shortBreak'' = Some 5"
  "TIMER_CONFIG ''longBreak'' = Some 15"
  by (simp_all add: TIMER_CONFIG_def)

lemma secondsAfterStart_Suc:
  "secondsAfterStart (Suc n) = secondsAfterStart n @ [1000 + 1000 * int (Suc n)]"
  by (simp add: secondsAfterStart_def)

lemma run_append: "run (xs @ ys) w = run ys (run xs w)"
  by (induction xs arbitrary: w) simp_all

lemma runningWork_stored: "storedState runningWork = Some (timerState runningWork)"
  by (simp add: runningWork_def startTimer_def initialWorld_def defaultTimerState_def
      saveState_def)

subsection \<open>The start timestamp\<close>

text \<open>
  C4, as stated, fails: \<open>pauseTimer\<close> sets \<open>pausedAt\<close> and leaves \<open>startedAt\<close> as it
  was. After START_TIMER at 1000 and PAUSE_TIMER at 2000 the start timestamp is still 1000.
\<close>

theorem pause_keeps_startedAt_counterexample:
  "isRunning (timerState runningWork) \<and>
   startedAt (timerState (pauseTimer 2000 runningWork)) = Some 1000"
  by (simp add: pauseTimer_def runningWork_simps)

text \<open>
  C4, amended. \<open>startTimer\<close> sets \<open>startedAt\<close> to the clock reading when the timer is not
  running and leaves it alone when it is; \<open>resetTimer\<close> always clears it; \<open>switchMode\<close>
  clears it when the timer is not running and leaves it alone when it is; \<open>pauseTimer\<close>
  never changes it: on a running timer it sets \<open>pausedAt\<close> to the clock reading, and on a
  stopped timer it changes nothing.
\<close>

theorem startedAt_set_and_cleared:
  "(\<not> isRunning (timerState w) \<longrightarrow> startedAt (timerState (startTimer now w)) = Some now)
   \<and> (isRunning (timerState w) \<longrightarrow> startedAt (timerState (startTimer now w)) = startedAt (timerState w))
   \<and> startedAt (timerState (pauseTimer now w)) = startedAt (timerState w)
   \<and> (isRunning (timerState w) \<longrightarrow> pausedAt (timerState (pauseTimer now w)) = Some now)
   \<and> (\<not> isRunning (timerState w) \<longrightarrow> pauseTimer now w = w)
   \<and> startedAt (timerState (resetTimer now w)) = None
   \<and> (\<not> isRunning (timerState w) \<longrightarrow> startedAt (timerState (switchMode m w)) = None)
   \<and> (isRunning (timerState w) \<longrightarrow> startedAt (timerState (switchMode m w)) = startedAt (timerState w))"
  by (simp add: startTimer_def pauseTimer_def resetTimer_def switchMode_def Let_def)

theorem startedAt_set_and_cleared_witness:
  "\<not> isRunning (timerState initialWorld) \<and>
   startedAt (timerState (startTimer 1000 initialWorld)) = Some 1000 \<and>
   startedAt (timerState (switchMode ''longBreak'' initialWorld)) = None \<and>
   isRunning (timerState runningWork) \<and>
   startedAt (timerState (startTimer 2000 runningWork)) = Some 1000 \<and>
   startedAt (timerState (pauseTimer 2000 runningWork)) = Some 1000 \<and>
   pausedAt (timerState (pauseTimer 2000 runningWork)) = Some 2000 \<and>
   pauseTimer 2000 initialWorld = initialWorld \<and>
   startedAt (timerState (resetTimer 2000 runningWork)) = None \<and>
   startedAt (timerState (switchMode ''longBreak'' runningWork)) = Some 1000"
proof -
  have a: "\<not> isRunning (timerState initialWorld)"
    by (simp add: initialWorld_def defaultTimerState_def)
  have b: "isRunning (timerState runningWork)" "startedAt (timerState runningWork) = Some 1000"
    by (simp_all add: runningWork_simps)
  from a startedAt_set_and_cleared [of initialWorld 1000 "''longBreak''"]
  have 1: "startedAt (timerState (startTimer 1000 initialWorld)) = Some 1000"
    "startedAt (timerState (switchMode ''longBreak'' initialWorld)) = None" by blast+
  from a startedAt_set_and_cleared [of initialWorld 2000 "''longBreak''"]
  have 3: "pauseTimer 2000 initialWorld = initialWorld" by blast
  from b startedAt_set_and_cleared [of runningWork 2000 "''longBreak''"]
  have 2: "startedAt (timerState (startTimer 2000 runningWork)) = Some 1000"
   "startedAt (timerState (pauseTimer 2000 runningWork)) = Some 1000"
   "pausedAt (timerState (pauseTimer 2000 runningWork)) = Some 2000"
   "startedAt (timerState (resetTimer 2000 runningWork)) = None"
   "startedAt (timerState (switchMode ''longBreak'' runningWork)) = Some 1000" by simp_all
  from a b 1 2 3 show ?thesis by simp
qed

subsection \<open>Completion and reset\<close>

text \<open>
  C5. When the alarm fires on a running timer whose remaining time is at most one second
  and whose mode is configured, the decrement reaches zero and \<open>completeTimer\<close> runs: one
  session record is posted, with \<open>completed\<close> true and the mode's configured minutes; one
  notification is raised; the timer stops, its alarm is cleared and the mode switches from
  work to the short break and from either break to work, with the new mode's full
  duration as remaining time (300 seconds after a work session). The witness is the run
  from a fresh start through 1500 ticks.
\<close>

theorem countdown_zero_completes:
  assumes "isRunning (timerState w)"
    and "timeRemaining (timerState w) = Num n" and "n \<le> 1"
    and "TIMER_CONFIG (mode (timerState w)) = Some d"
  shows "sessions (onAlarm ''pomodoroTimer'' now w) =
           sessions w @
             [\<lparr>session_type = mode (timerState w), duration_minutes = Some d, completed = True,
               started_at = msOf (startedAt (timerState w)), ended_at = now\<rparr>]
         \<and> notifications (onAlarm ''pomodoroTimer'' now w) =
             notifications w @ [completionMessage (mode (timerState w))]
         \<and> timerState (onAlarm ''pomodoroTimer'' now w) =
             \<lparr>mode = (if mode (timerState w) = ''pomodoro'' then ''shortBreak'' else ''pomodoro''),
              timeRemaining = (if mode (timerState w) = ''pomodoro'' then Num 300 else Num 1500),
              isRunning = False, startedAt = None, pausedAt = None\<rparr>
         \<and> timeRemaining (timerState (onAlarm ''pomodoroTimer'' now w)) =
             js_times60 (TIMER_CONFIG (mode (timerState (onAlarm ''pomodoroTimer'' now w))))
         \<and> \<not> alarm (onAlarm ''pomodoroTimer'' now w)
         \<and> storedState (onAlarm ''pomodoroTimer'' now w) =
             Some (timerState (onAlarm ''pomodoroTimer'' now w))"
  using assms
  by (simp add: onAlarm_def completeTimer_def switchMode_def nextMode_def Let_def saveState_def
      updateBlockingRules_def enableBlocking_def disableBlocking_def TIMER_CONFIG_simps)

theorem countdown_zero_completes_witness:
  "isRunning (timerState (run (map tick (secondsAfterStart 1499)) runningWork)) \<and>
   timeRemaining (timerState (run (map tick (secondsAfterStart 1499)) runningWork)) = Num 1 \<and>
   sessions (run (map tick (secondsAfterStart 1499)) runningWork) = [] \<and>
   sessions (run (map tick (secondsAfterStart 1500)) runningWork) =
     [\<lparr>session_type = ''pomodoro'', duration_minutes = Some 25, completed = True,
       started_at = 1000, ended_at = 1501000\<rparr>] \<and>
   notifications (run (map tick (secondsAfterStart 1500)) runningWork) =
     [Str ''Work session completed! You deserve a break.''] \<and>
   timerState (run (map tick (secondsAfterStart 1500)) runningWork) =
     \<lparr>mode = ''shortBreak'', timeRemaining = Num 300, isRunning = False, startedAt = None,
      pausedAt = None\<rparr>"
proof -
  let ?w = "run (map tick (secondsAfterStart 1499)) runningWork"
  have len: "int (length (secondsAfterStart 1499)) = 1499"
    by (simp add: secondsAfterStart_def)
  have r0: "isRunning (timerState runningWork)" "timeRemaining (timerState runningWork) = Num 1500"
    by (simp_all add: runningWork_simps)
  have lt: "int (length (secondsAfterStart 1499)) < 1500" by (simp add: len)
  from run_ticks [OF r0 lt]
  have w: "timerState ?w = \<lparr>mode = ''pomodoro'', timeRemaining = Num 1, isRunning = True,
      startedAt = Some 1000, pausedAt = None\<rparr>"
    "sessions ?w = []" "notifications ?w = []"
    by (simp_all add: len runningWork_simps runningWork_def startTimer_def initialWorld_def
        defaultTimerState_def saveState_def updateBlockingRules_def enableBlocking_def
        disableBlocking_def)
  have "secondsAfterStart (Suc 1499) = secondsAfterStart 1499 @ [1000 + 1000 * int (Suc 1499)]"
    by (rule secondsAfterStart_Suc)
  then have split: "secondsAfterStart 1500 = secondsAfterStart 1499 @ [1501000]"
    by simp
  have last: "run (map tick (secondsAfterStart 1500)) runningWork
      = onAlarm ''pomodoroTimer'' 1501000 ?w"
    by (simp add: split run_append tick_def)
  have h: "isRunning (timerState ?w)" "timeRemaining (timerState ?w) = Num 1" "(1::int) \<le> 1"
    "TIMER_CONFIG (mode (timerState ?w)) = Some 25"
    by (simp_all add: w TIMER_CONFIG_simps)
  from countdown_zero_completes [OF h, of 1501000] h(1,2) w(2)
  show ?thesis
    by (simp add: last w msOf_def completionMessage_def)
qed


text \<open>
  C6. \<open>resetTimer\<close> posts a session record exactly when the timer is running and
  \<open>startedAt\<close> passes the truthiness test of line 130 (a timestamp other than \<open>null\<close>
  and 0); the record has \<open>completed\<close> false and the mode's configured minutes, whatever
  time has elapsed. In every case the timer is left stopped with the mode's full duration
  and both timestamps cleared. The witness resets a work session after 10 ticks.
\<close>

theorem reset_emits_incomplete_session:
  assumes "TIMER_CONFIG (mode (timerState w)) = Some d"
  shows "sessions (resetTimer now w) =
           (if isRunning (timerState w) \<and> truthy (startedAt (timerState w))
            then sessions w @
                   [\<lparr>session_type = mode (timerState w), duration_minutes = Some d,
                     completed = False, started_at = msOf (startedAt (timerState w)),
                     ended_at = now\<rparr>]
            else sessions w)
         \<and> timerState (resetTimer now w) =
             \<lparr>mode = mode (timerState w), timeRemaining = Num (d * 60), isRunning = False,
              startedAt = None, pausedAt = None\<rparr>
         \<and> storedState (resetTimer now w) = Some (timerState (resetTimer now w))
         \<and> \<not> alarm (resetTimer now w)"
  using assms by (simp add: resetTimer_def Let_def saveState_def)

theorem reset_emits_incomplete_session_witness:
  "TIMER_CONFIG (mode (timerState (run (map tick (secondsAfterStart 10)) runningWork))) = Some 25 \<and>
   timeRemaining (timerState (run (map tick (secondsAfterStart 10)) runningWork)) = Num 1490 \<and>
   sessions (resetTimer 12000 (run (map tick (secondsAfterStart 10)) runningWork)) =
     [\<lparr>session_type = ''pomodoro'', duration_minutes = Some 25, completed = False,
       started_at = 1000, ended_at = 12000\<rparr>] \<and>
   timerState (resetTimer 12000 (run (map tick (secondsAfterStart 10)) runningWork)) =
     \<lparr>mode = ''pomodoro'', timeRemaining = Num 1500, isRunning = False, startedAt = None,
      pausedAt = None\<rparr> \<and>
   TIMER_CONFIG (mode (timerState initialWorld)) = Some 25 \<and>
   sessions (resetTimer 12000 initialWorld) = []"
proof -
  let ?w = "run (map tick (secondsAfterStart 10)) runningWork"
  have len: "int (length (secondsAfterStart 10)) = 10"
    by (simp add: secondsAfterStart_def)
  have r0: "isRunning (timerState runningWork)" "timeRemaining (timerState runningWork) = Num 1500"
    by (simp_all add: runningWork_simps)
  have lt: "int (length (secondsAfterStart 10)) < 1500" by (simp add: len)
  from run_ticks [OF r0 lt]
  have w: "timerState ?w = \<lparr>mode = ''pomodoro'', timeRemaining = Num 1490, isRunning = True,
      startedAt = Some 1000, pausedAt = None\<rparr>"
    "sessions ?w = []"
    by (simp_all add: len runningWork_simps)
  have h: "TIMER_CONFIG (mode (timerState ?w)) = Some 25"
    by (simp add: w TIMER_CONFIG_simps)
  have i: "TIMER_CONFIG (mode (timerState initialWorld)) = Some 25"
    "\<not> isRunning (timerState initialWorld)" "sessions initialWorld = []"
    by (simp_all add: initialWorld_def defaultTimerState_def TIMER_CONFIG_simps)
  from reset_emits_incomplete_session [OF h, of 12000]
    reset_emits_incomplete_session [OF i(1), of 12000] h i
  show ?thesis
    by (simp add: w truthy_def msOf_def)
qed

subsection \<open>Reconciliation\<close>

text \<open>
  C1. When the stored state is running, has a start timestamp (one that passes the
  truthiness test of line 63, so not 0) and a configured mode of \<open>d\<close> minutes, the first
  \<open>onInstalled\<close> listener recomputes the remaining time as
  \<open>max 0 (d * 60 - (now - t0) div 1000)\<close>. If that is 0 it runs \<open>completeTimer\<close> (a
  completed session record is posted, the timer stops and no alarm is left); otherwise it
  keeps the reconciled value and creates the alarm. A work session read 2000 seconds
  after its start reconciles to 0 and completes.
\<close>

theorem reconciliation_on_reactivation:
  assumes "storedState w = Some s" and "isRunning s"
    and "startedAt s = Some t0" and "t0 \<noteq> 0"
    and "TIMER_CONFIG (mode s) = Some d"
  shows "reconciled now s = Num (max 0 (d * 60 - (now - t0) div 1000))
     \<and> (max 0 (d * 60 - (now - t0) div 1000) = 0 \<longrightarrow>
          onInstalledTimer now w = completeTimer now (w\<lparr>timerState := s\<lparr>timeRemaining := Num 0\<rparr>\<rparr>)
          \<and> sessions (onInstalledTimer now w) =
              sessions w @ [\<lparr>session_type = mode s, duration_minutes = Some d, completed = True,
                             started_at = t0, ended_at = now\<rparr>]
          \<and> \<not> isRunning (timerState (onInstalledTimer now w))
          \<and> \<not> alarm (onInstalledTimer now w))
     \<and> (0 < max 0 (d * 60 - (now - t0) div 1000) \<longrightarrow>
          onInstalledTimer now w =
            w\<lparr>timerState := s\<lparr>timeRemaining := Num (max 0 (d * 60 - (now - t0) div 1000))\<rparr>,
              alarm := True\<rparr>)"
proof -
  let ?r = "max 0 (d * 60 - (now - t0) div 1000)"
  have rec: "reconciled now s = Num ?r"
    using assms by (simp add: reconciled_def elapsed_def msOf_def)
  have tr: "truthy (startedAt s)" using assms by (simp add: truthy_def)
  have inst: "onInstalledTimer now w = resumeTimer now (w\<lparr>timerState := s\<rparr>)"
    using assms tr by (simp add: onInstalledTimer_def Let_def)
  have res: "resumeTimer now (w\<lparr>timerState := s\<rparr>) =
      (if 0 < ?r then w\<lparr>timerState := s\<lparr>timeRemaining := Num ?r\<rparr>, alarm := True\<rparr>
       else completeTimer now (w\<lparr>timerState := s\<lparr>timeRemaining := Num ?r\<rparr>\<rparr>))"
    using assms(2) by (simp add: resumeTimer_def Let_def rec)
  have zero: "?r = 0 \<Longrightarrow>
      onInstalledTimer now w = completeTimer now (w\<lparr>timerState := s\<lparr>timeRemaining := Num 0\<rparr>\<rparr>)"
    by (simp add: inst res)
  have obs: "sessions (completeTimer now (w\<lparr>timerState := s\<lparr>timeRemaining := Num 0\<rparr>\<rparr>)) =
        sessions w @ [\<lparr>session_type = mode s, duration_minutes = Some d, completed = True,
                             started_at = t0, ended_at = now\<rparr>]"
      "\<not> isRunning (timerState (completeTimer now (w\<lparr>timerState := s\<lparr>timeRemaining := Num 0\<rparr>\<rparr>)))"
      "\<not> alarm (completeTimer now (w\<lparr>timerState := s\<lparr>timeRemaining := Num 0\<rparr>\<rparr>))"
    using assms
    by (simp_all add: completeTimer_def switchMode_def Let_def saveState_def msOf_def
        updateBlockingRules_def enableBlocking_def disableBlocking_def)
  have pos: "0 < ?r \<Longrightarrow> onInstalledTimer now w =
            w\<lparr>timerState := s\<lparr>timeRemaining := Num ?r\<rparr>, alarm := True\<rparr>"
    by (simp add: inst res)
  show ?thesis
    using rec zero obs pos by presburger
qed


theorem reconciliation_on_reactivation_witness:
  "storedState runningWork = Some (timerState runningWork) \<and>
   isRunning (timerState runningWork) \<and>
   startedAt (timerState runningWork) = Some 1000 \<and>
   TIMER_CONFIG (mode (timerState runningWork)) = Some 25 \<and>
   reconciled 2001000 (timerState runningWork) = Num 0 \<and>
   sessions (onInstalledTimer 2001000 runningWork) =
     [\<lparr>session_type = ''pomodoro'', duration_minutes = Some 25, completed = True,
       started_at = 1000, ended_at = 2001000\<rparr>] \<and>
   \<not> isRunning (timerState (onInstalledTimer 2001000 runningWork)) \<and>
   \<not> alarm (onInstalledTimer 2001000 runningWork) \<and>
   reconciled 101000 (timerState runningWork) = Num 1400 \<and>
   timeRemaining (timerState (onInstalledTimer 101000 runningWork)) = Num 1400 \<and>
   alarm (onInstalledTimer 101000 runningWork)"
proof -
  have h: "storedState runningWork = Some (timerState runningWork)"
    "isRunning (timerState runningWork)"
    "startedAt (timerState runningWork) = Some 1000" "(1000::int) \<noteq> 0"
    "TIMER_CONFIG (mode (timerState runningWork)) = Some 25"
    by (simp_all add: runningWork_stored runningWork_simps TIMER_CONFIG_simps)
  have m: "mode (timerState runningWork) = ''pomodoro''" "sessions runningWork = []"
    by (simp_all add: runningWork_simps)
  have z: "max 0 (25 * 60 - (2001000 - 1000) div 1000) = (0::int)"
    and p: "(0::int) < max 0 (25 * 60 - (101000 - 1000) div 1000)"
    and v: "max 0 (25 * 60 - (101000 - 1000) div 1000) = (1400::int)"
    by simp_all
  note late = reconciliation_on_reactivation [OF h, of 2001000]
  note early = reconciliation_on_reactivation [OF h, of 101000]
  from late z have l1: "reconciled 2001000 (timerState runningWork) = Num 0"
    by (simp only:)
  from late z have l2: "sessions (onInstalledTimer 2001000 runningWork) =
        sessions runningWork @
          [\<lparr>session_type = mode (timerState runningWork), duration_minutes = Some 25,
            completed = True, started_at = 1000, ended_at = 2001000\<rparr>]"
      "\<not> isRunning (timerState (onInstalledTimer 2001000 runningWork))"
      "\<not> alarm (onInstalledTimer 2001000 runningWork)"
    by blast+
  from early v have e1: "reconciled 101000 (timerState runningWork) = Num 1400"
    by (simp only:)
  from early p have "onInstalledTimer 101000 runningWork =
      runningWork\<lparr>timerState := (timerState runningWork)\<lparr>timeRemaining :=
          Num (max 0 (25 * 60 - (101000 - 1000) div 1000))\<rparr>, alarm := True\<rparr>"
    by blast
  then have e2: "timeRemaining (timerState (onInstalledTimer 101000 runningWork)) = Num 1400"
    "alarm (onInstalledTimer 101000 runningWork)"
    by simp_all
  from h(1,2,3,5) l1 l2 e1 e2 show ?thesis
    by (simp add: m)
qed

text \<open>
  C9. \<open>startTimer\<close> on a stopped timer whose remaining time \<open>r\<close> is below the mode's full
  duration keeps \<open>r\<close> and overwrites \<open>startedAt\<close> with the clock reading \<open>t1\<close>. A
  reconciliation at \<open>t2\<close> then starts from the full duration: its result exceeds
  \<open>r\<close> minus the seconds elapsed since \<open>t1\<close>, the time the countdown really has left,
  and it exceeds that time clamped at 0 as long as fewer seconds than the full duration
  have elapsed. The \<open>onInstalled\<close> listener installs the reconciled value.
\<close>

theorem restart_after_pause_overestimates:
  assumes "\<not> isRunning (timerState w)"
    and "timeRemaining (timerState w) = Num r"
    and "TIMER_CONFIG (mode (timerState w)) = Some d"
    and "r < d * 60"
  shows "timeRemaining (timerState (startTimer t1 w)) = Num r
     \<and> startedAt (timerState (startTimer t1 w)) = Some t1
     \<and> storedState (startTimer t1 w) = Some (timerState (startTimer t1 w))
     \<and> elapsed t2 (timerState (startTimer t1 w)) = (t2 - t1) div 1000
     \<and> reconciled t2 (timerState (startTimer t1 w)) = Num (max 0 (d * 60 - (t2 - t1) div 1000))
     \<and> r - (t2 - t1) div 1000 < max 0 (d * 60 - (t2 - t1) div 1000)
     \<and> ((t2 - t1) div 1000 < d * 60 \<longrightarrow>
          max 0 (r - (t2 - t1) div 1000) < max 0 (d * 60 - (t2 - t1) div 1000))
     \<and> (t1 \<noteq> 0 \<and> (t2 - t1) div 1000 < d * 60 \<longrightarrow>
          timeRemaining (timerState (onInstalledTimer t2 (startTimer t1 w))) =
            Num (d * 60 - (t2 - t1) div 1000))"
proof -
  let ?w1 = "startTimer t1 w"
  have ts: "timerState ?w1 = (timerState w)\<lparr>isRunning := True, startedAt := Some t1\<rparr>"
    using assms(1) by (simp add: startTimer_def)
  have st: "storedState ?w1 = Some (timerState ?w1)"
    using assms(1) by (simp add: startTimer_def saveState_def)
  have el: "elapsed t2 (timerState ?w1) = (t2 - t1) div 1000"
    by (simp add: ts elapsed_def msOf_def)
  have rec: "reconciled t2 (timerState ?w1) = Num (max 0 (d * 60 - (t2 - t1) div 1000))"
    using assms(3) by (simp add: reconciled_def el) (simp add: ts)
  have inst: "t1 \<noteq> 0 \<Longrightarrow> (t2 - t1) div 1000 < d * 60 \<Longrightarrow>
      timeRemaining (timerState (onInstalledTimer t2 ?w1)) = Num (d * 60 - (t2 - t1) div 1000)"
    by (simp add: onInstalledTimer_def st Let_def truthy_def resumeTimer_def rec) (simp add: ts)
  show ?thesis
    using assms(2,4) st el rec inst by (simp add: ts)
qed

theorem restart_after_pause_overestimates_witness:
  "\<not> isRunning (timerState (pauseTimer 101000 (run (map tick (secondsAfterStart 100)) runningWork))) \<and>
   timeRemaining (timerState (pauseTimer 101000 (run (map tick (secondsAfterStart 100)) runningWork)))
     = Num 1400 \<and>
   timeRemaining (timerState (startTimer 200000
      (pauseTimer 101000 (run (map tick (secondsAfterStart 100)) runningWork)))) = Num 1400 \<and>
   startedAt (timerState (startTimer 200000
      (pauseTimer 101000 (run (map tick (secondsAfterStart 100)) runningWork)))) = Some 200000 \<and>
   reconciled 210000 (timerState (startTimer 200000
      (pauseTimer 101000 (run (map tick (secondsAfterStart 100)) runningWork)))) = Num 1490 \<and>
   timeRemaining (timerState (onInstalledTimer 210000 (startTimer 200000
      (pauseTimer 101000 (run (map tick (secondsAfterStart 100)) runningWork))))) = Num 1490"
proof -
  let ?w = "run (map tick (secondsAfterStart 100)) runningWork"
  let ?p = "pauseTimer 101000 ?w"
  have len: "int (length (secondsAfterStart 100)) = 100"
    by (simp add: secondsAfterStart_def)
  have r0: "isRunning (timerState runningWork)" "timeRemaining (timerState runningWork) = Num 1500"
    by (simp_all add: runningWork_simps)
  have lt: "int (length (secondsAfterStart 100)) < 1500" by (simp add: len)
  from run_ticks [OF r0 lt]
  have w: "timerState ?w = \<lparr>mode = ''pomodoro'', timeRemaining = Num 1400, isRunning = True,
      startedAt = Some 1000, pausedAt = None\<rparr>"
    by (simp_all add: len runningWork_simps)
  have p: "timerState ?p = \<lparr>mode = ''pomodoro'', timeRemaining = Num 1400, isRunning = False,
      startedAt = Some 1000, pausedAt = Some 101000\<rparr>"
    by (simp add: pauseTimer_def w)
  have h: "\<not> isRunning (timerState ?p)" "timeRemaining (timerState ?p) = Num 1400"
    "TIMER_CONFIG (mode (timerState ?p)) = Some 25" "(1400::int) < 25 * 60"
    by (simp_all add: p TIMER_CONFIG_simps)
  from restart_after_pause_overestimates [OF h, of 200000 210000] h(1,2)
  show ?thesis
    by simp
qed

subsection \<open>Transitions and the rule set\<close>

text \<open>
  \<open>startTimer\<close>, \<open>pauseTimer\<close> and \<open>completeTimer\<close> end with \<open>updateBlockingRules\<close>, so
  the rules they leave are current.
\<close>

lemma rulesCurrent_updateBlockingRules: "rulesCurrent (saveState (updateBlockingRules w))"
  by (simp add: rulesCurrent_def dynamicRules_update saveState_def)
    (simp add: updateBlockingRules_def enableBlocking_def disableBlocking_def)

lemma startTimer_recomputes:
  "\<not> isRunning (timerState w) \<Longrightarrow> rulesCurrent (startTimer now w)"
  by (simp add: startTimer_def rulesCurrent_updateBlockingRules)

lemma pauseTimer_recomputes:
  "isRunning (timerState w) \<Longrightarrow> rulesCurrent (pauseTimer now w)"
  by (simp add: pauseTimer_def rulesCurrent_updateBlockingRules)

lemma completeTimer_recomputes: "rulesCurrent (completeTimer now w)"
  by (simp add: completeTimer_def Let_def rulesCurrent_updateBlockingRules)

text \<open>
  C3. \<open>resetTimer\<close> has no call of \<open>updateBlockingRules\<close>. Resetting the running work
  session of \<open>runningWork\<close> stops the timer and keeps the twelve redirect rules that the
  start installed, although a recomputation from the state after the reset gives the
  empty rule set.
\<close>

theorem reset_leaves_rules_stale:
  "isRunning (timerState runningWork) \<and>
   rulesCurrent runningWork \<and>
   length (dynamicRules runningWork) = 12 \<and>
   \<not> isRunning (timerState (resetTimer 2000 runningWork)) \<and>
   dynamicRules (resetTimer 2000 runningWork) = dynamicRules runningWork \<and>
   dynamicRules (updateBlockingRules (resetTimer 2000 runningWork)) = [] \<and>
   \<not> rulesCurrent (resetTimer 2000 runningWork)"
proof -
  have a: "dynamicRules (resetTimer 2000 runningWork) = dynamicRules runningWork"
    "\<not> isRunning (timerState (resetTimer 2000 runningWork))"
    by (simp_all add: resetTimer_def Let_def saveState_def)
  have b: "dynamicRules (updateBlockingRules (resetTimer 2000 runningWork)) = []"
    by (simp add: dynamicRules_update shouldBlock_def a)
  have c: "length (dynamicRules runningWork) = 12"
    by (simp add: runningWork_simps length_allRules defaultBlockedSites_def)
  have d: "rulesCurrent runningWork"
    unfolding runningWork_def by (rule startTimer_recomputes) (simp add: initialWorld_def defaultTimerState_def)
  from c have e: "dynamicRules runningWork \<noteq> []" by auto
  show ?thesis
    using a b c d e by (simp add: rulesCurrent_def runningWork_simps)
qed

subsection \<open>The remaining time stays in range\<close>




lemma timerInv_iff:
  "timerInv T w \<longleftrightarrow>
     wellTimed T (timerState w) \<and> (\<forall>s. storedState w = Some s \<longrightarrow> wellTimed T s)"
  by (auto simp: timerInv_def split: option.splits)






lemma timerInv_updateBlockingRules:
  "timerInv T (updateBlockingRules w) = timerInv T w"
  by (simp add: timerInv_iff updateBlockingRules_def enableBlocking_def disableBlocking_def)


















end
